theory Spec2Isabelle
  imports Main
begin

section \<open>JavaScript strings\<close>

text \<open>
  A JavaScript string is a sequence of UTF-16 code units; a code unit is a number here.
  \<open>str\<close> turns an ASCII literal into such a sequence. The three emoji of the change
  type headings are surrogate pairs.
\<close>

type_synonym jsstring = "nat list"

definition str :: "string \<Rightarrow> jsstring" where
  "str s = map of_char s"

definition EOL :: jsstring where
  "EOL = [10]"

text \<open>
  The code units that \<^verbatim>\<open>String.prototype.trim\<close> and \<^verbatim>\<open>trimRight\<close> remove:
  ECMAScript's WhiteSpace and LineTerminator.
\<close>

definition isWhiteSpace :: "nat \<Rightarrow> bool" where
  "isWhiteSpace c \<longleftrightarrow>
     c \<in> {9, 10, 11, 12, 13, 32, 160, 5760, 8192, 8193, 8194, 8195, 8196, 8197, 8198,
          8199, 8200, 8201, 8202, 8232, 8233, 8239, 8287, 12288, 65279}"

definition trimLeft :: "jsstring \<Rightarrow> jsstring" where
  "trimLeft s = dropWhile isWhiteSpace s"

definition trimRight :: "jsstring \<Rightarrow> jsstring" where
  "trimRight s = rev (dropWhile isWhiteSpace (rev s))"

definition trim :: "jsstring \<Rightarrow> jsstring" where
  "trim s = trimRight (trimLeft s)"

definition repeat :: "jsstring \<Rightarrow> nat \<Rightarrow> jsstring" where
  "repeat s n = concat (replicate n s)"

fun join :: "jsstring \<Rightarrow> jsstring list \<Rightarrow> jsstring" where
  "join sep [] = []"
| "join sep [x] = x"
| "join sep (x # y # r) = x @ sep @ join sep (y # r)"

text \<open>\<^verbatim>\<open>text.split(EOL)\<close>: the pieces between line breaks; the empty string gives one empty piece.\<close>

fun splitEOL :: "jsstring \<Rightarrow> jsstring list" where
  "splitEOL [] = [[]]"
| "splitEOL (c # cs) =
     (if c = 10 then [] # splitEOL cs
      else (case splitEOL cs of [] \<Rightarrow> [[c]] | l # ls \<Rightarrow> (c # l) # ls))"

text \<open>A number in a template literal: the decimal digits of a natural number.\<close>

function showNat :: "nat \<Rightarrow> jsstring" where
  "showNat n = (if n < 10 then [48 + n] else showNat (n div 10) @ [48 + n mod 10])"
  by pat_completeness auto
termination
  by (relation "measure id") auto

declare showNat.simps [simp del]

text \<open>
  lodash's \<^verbatim>\<open>unescape\<close>: every match of \<^verbatim>\<open>/&(?:amp|lt|gt|quot|#39);/g\<close>, from left to
  right, is replaced by the character it names.
\<close>

definition startsWith :: "jsstring \<Rightarrow> jsstring \<Rightarrow> bool" where
  "startsWith e s \<longleftrightarrow> take (length e) s = e"

text \<open>The entity at the start of a string: the character it names and its length.\<close>

definition matchEntity :: "jsstring \<Rightarrow> (nat \<times> nat) option" where
  "matchEntity s =
     (if startsWith (str ''&amp;'') s then Some (38, 5)
      else if startsWith (str ''&lt;'') s then Some (60, 4)
      else if startsWith (str ''&gt;'') s then Some (62, 4)
      else if startsWith (str ''&quot;'') s then Some (34, 6)
      else if startsWith (str ''&#39;'') s then Some (39, 5)
      else None)"

function unescape :: "jsstring \<Rightarrow> jsstring" where
  "unescape [] = []"
| "unescape (c # cs) =
     (case matchEntity (c # cs) of
        Some (r, n) \<Rightarrow> r # unescape (drop (n - 1) cs)
      | None \<Rightarrow> c # unescape cs)"
  by pat_completeness auto
termination
  by (relation "measure length") auto

section \<open>Markdown tokens\<close>

text \<open>
  The token union of the Markdown module. A list holds list items, a list item holds
  tokens. \<open>Other\<close> stands for a token of any other type, which the tokenizer can produce
  and the renderer refuses. Fields that no function reads (\<^verbatim>\<open>raw\<close>, \<^verbatim>\<open>loose\<close>, \<^verbatim>\<open>task\<close>,
  \<^verbatim>\<open>checked\<close>, \<^verbatim>\<open>start\<close>, a heading's inline \<^verbatim>\<open>tokens\<close>) are left out; an absent \<^verbatim>\<open>ordered\<close>
  is \<open>False\<close>.
\<close>

datatype token =
    Heading nat jsstring
  | ListT listToken
  | ListItemT listItemToken
  | Paragraph jsstring
  | TextT jsstring
  | Space
  | Code jsstring jsstring
  | Other jsstring
and listToken = ListToken nat "listItemToken list" bool
and listItemToken = ListItemToken nat jsstring "token list"

text \<open>
  The errors. The last one is not an exception of the source: it ends a run of the
  embedding where the source goes on with a built-in object shared by all objects in the
  place of a dictionary entry, which the embedding does not follow (see \<open>enterVersion\<close>).
\<close>

datatype error =
    UnsupportedTokenKind jsstring
  | VersionNotFound jsstring
  | ChangeTypeSectionNotFound jsstring
  | TokensNotLoaded
  | TypeError
  | OutsideEmbedding jsstring

definition createTextToken :: "jsstring \<Rightarrow> token" where
  "createTextToken t = TextT t"

definition createListToken :: "nat \<Rightarrow> listToken" where
  "createListToken depth = ListToken depth [] False"

definition createListItemToken :: "jsstring \<Rightarrow> nat \<Rightarrow> listItemToken" where
  "createListItemToken t depth = ListItemToken depth t [createTextToken t]"

section \<open>The renderer\<close>

record renderingContext =
  ctx_indent :: "nat option"
  ctx_orderedList :: bool
  ctx_itemIndex :: "nat option"

definition indent :: "nat option \<Rightarrow> jsstring \<Rightarrow> jsstring" where
  "indent depth indentStr =
     (case depth of None \<Rightarrow> [] | Some d \<Rightarrow> if d = 0 then [] else repeat indentStr d)"

definition render_heading :: "nat \<Rightarrow> jsstring \<Rightarrow> jsstring" where
  "render_heading depth t = indent (Some depth) (str ''#'') @ str '' '' @ t @ repeat EOL 2"

definition render_paragraph :: "jsstring \<Rightarrow> jsstring" where
  "render_paragraph t = t @ EOL"

definition render_code :: "jsstring \<Rightarrow> jsstring \<Rightarrow> renderingContext \<Rightarrow> jsstring" where
  "render_code t lang ctx =
     (let indentStr = indent (ctx_indent ctx) (str ''  '');
          lines = (str ''```'' @ lang) # splitEOL t @ [str ''```'']
      in indentStr @ join (EOL @ indentStr) lines)"

definition bullet :: "renderingContext \<Rightarrow> jsstring" where
  "bullet ctx =
     (if ctx_orderedList ctx
      then showNat (case ctx_itemIndex ctx of None \<Rightarrow> 1 | Some i \<Rightarrow> i) @ str ''.''
      else str ''-'')"

text \<open>
  \<open>renderToken\<close> is the switch on the token type; \<open>render_list\<close> and \<open>render_listItem\<close> are
  the methods \<^verbatim>\<open>list\<close> and \<^verbatim>\<open>listItem\<close>, \<open>render_items\<close> and \<open>render_children\<close> their loops.
  The first token of an unsupported type ends the rendering with the error.
\<close>

fun renderToken :: "renderingContext \<Rightarrow> token \<Rightarrow> error + jsstring"
and render_list :: "renderingContext \<Rightarrow> listToken \<Rightarrow> error + jsstring"
and render_items :: "renderingContext \<Rightarrow> bool \<Rightarrow> nat \<Rightarrow> listItemToken list \<Rightarrow> error + jsstring"
and render_listItem :: "renderingContext \<Rightarrow> listItemToken \<Rightarrow> error + jsstring"
and render_children :: "renderingContext \<Rightarrow> token list \<Rightarrow> error + jsstring"
where
  "renderToken ctx (Heading d t) = Inr (render_heading d t)"
| "renderToken ctx (ListT l) = render_list ctx l"
| "renderToken ctx (ListItemT it) = render_listItem ctx it"
| "renderToken ctx (Paragraph t) = Inr (render_paragraph t)"
| "renderToken ctx (TextT t) = Inr t"
| "renderToken ctx Space = Inr EOL"
| "renderToken ctx (Code t lang) = Inr (render_code t lang ctx)"
| "renderToken ctx (Other ty) = Inl (UnsupportedTokenKind ty)"
| "render_list ctx (ListToken d items ordered) =
     (case render_items ctx ordered 0 items of
        Inl e \<Rightarrow> Inl e
      | Inr out \<Rightarrow> Inr (out @ EOL))"
| "render_items ctx ordered i [] = Inr []"
| "render_items ctx ordered i (it # its) =
     (case render_listItem (ctx\<lparr>ctx_orderedList := ordered, ctx_itemIndex := Some (i + 1)\<rparr>) it of
        Inl e \<Rightarrow> Inl e
      | Inr a \<Rightarrow>
          (case render_items ctx ordered (i + 1) its of
             Inl e \<Rightarrow> Inl e
           | Inr b \<Rightarrow> Inr (a @ b)))"
| "render_listItem ctx (ListItemToken d t toks) =
     (case render_children
             (ctx\<lparr>ctx_indent := Some ((case ctx_indent ctx of None \<Rightarrow> 0 | Some n \<Rightarrow> n) + 1)\<rparr>) toks of
        Inl e \<Rightarrow> Inl e
      | Inr body \<Rightarrow>
          Inr (trimRight
                 (indent (Some (case ctx_indent ctx of None \<Rightarrow> 0 | Some n \<Rightarrow> n)) (str ''  '')
                  @ bullet ctx @ str '' '' @ body)
               @ EOL))"
| "render_children ctx [] = Inr []"
| "render_children ctx (c # cs) =
     (case renderToken ctx c of
        Inl e \<Rightarrow> Inl e
      | Inr a \<Rightarrow>
          (case render_children ctx cs of
             Inl e \<Rightarrow> Inl e
           | Inr b \<Rightarrow> Inr (trimRight a @ EOL @ b)))"

text \<open>\<^verbatim>\<open>MarkdownRenderer.render\<close>: every token rendered with indentation 0.\<close>

fun MarkdownRenderer_render :: "token list \<Rightarrow> error + jsstring" where
  "MarkdownRenderer_render [] = Inr []"
| "MarkdownRenderer_render (t # ts) =
     (case renderToken \<lparr>ctx_indent = Some 0, ctx_orderedList = False, ctx_itemIndex = None\<rparr> t of
        Inl e \<Rightarrow> Inl e
      | Inr a \<Rightarrow>
          (case MarkdownRenderer_render ts of
             Inl e \<Rightarrow> Inl e
           | Inr b \<Rightarrow> Inr (a @ b)))"

text \<open>\<^verbatim>\<open>Markdown.render\<close> with the default renderer.\<close>

definition render :: "token list \<Rightarrow> error + jsstring" where
  "render tokens =
     (case MarkdownRenderer_render tokens of
        Inl e \<Rightarrow> Inl e
      | Inr out \<Rightarrow> Inr (unescape (trim out @ EOL)))"

section \<open>The lexer adapter\<close>

text \<open>
  \<^verbatim>\<open>recursivelyFixTokens(tokens, listDepth)\<close>: a list and its items get the depth of the
  call, the tokens of an item are fixed one level deeper. Nothing else is changed and no
  other token is entered.
\<close>

fun fixToken :: "token \<Rightarrow> nat \<Rightarrow> token"
and fixItems :: "listItemToken list \<Rightarrow> nat \<Rightarrow> listItemToken list"
and recursivelyFixTokens :: "token list \<Rightarrow> nat \<Rightarrow> token list"
where
  "fixToken (ListT (ListToken d items ordered)) listDepth =
     ListT (ListToken listDepth (fixItems items listDepth) ordered)"
| "fixToken (Heading d t) listDepth = Heading d t"
| "fixToken (ListItemT it) listDepth = ListItemT it"
| "fixToken (Paragraph t) listDepth = Paragraph t"
| "fixToken (TextT t) listDepth = TextT t"
| "fixToken Space listDepth = Space"
| "fixToken (Code t lang) listDepth = Code t lang"
| "fixToken (Other ty) listDepth = Other ty"
| "fixItems [] listDepth = []"
| "fixItems (ListItemToken d t toks # its) listDepth =
     ListItemToken listDepth t (recursivelyFixTokens toks (listDepth + 1)) # fixItems its listDepth"
| "recursivelyFixTokens [] listDepth = []"
| "recursivelyFixTokens (t # ts) listDepth = fixToken t listDepth # recursivelyFixTokens ts listDepth"

text \<open>
  \<^verbatim>\<open>lexify\<close>. The tokenizer \<^verbatim>\<open>marked.lexer\<close> is a library outside the repository: it is the
  parameter \<open>lexer\<close>, and \<open>None\<close> is a call that throws.
\<close>

definition lexify :: "(jsstring \<Rightarrow> token list option) \<Rightarrow> jsstring \<Rightarrow> token list option" where
  "lexify lexer md = map_option (\<lambda>ts. recursivelyFixTokens ts 0) (lexer md)"

section \<open>Changelogs\<close>

record entry =
  message :: jsstring
  pullRequests :: "nat list option"
  authors :: "jsstring list option"

definition BREAKING_CHANGES :: jsstring where
  "BREAKING_CHANGES = [55357, 57056] @ str '' Breaking changes''"

definition NEW_FEATURES :: jsstring where
  "NEW_FEATURES = [55356, 57225] @ str '' New features''"

definition BUG_FIXES :: jsstring where
  "BUG_FIXES = [55357, 56347] @ str '' Bug fixes''"

definition UNPUBLISHED_VERSION_NAME :: jsstring where
  "UNPUBLISHED_VERSION_NAME = str ''master''"

definition VERSION_EMPTY_PARAGRAPH_TEXT :: jsstring where
  "VERSION_EMPTY_PARAGRAPH_TEXT = str ''*This version does not introduce any user-facing changes.*''"

definition VERSION_HEADING_DEPTH :: nat where
  "VERSION_HEADING_DEPTH = 2"

definition CHANGE_TYPE_HEADING_DEPTH :: nat where
  "CHANGE_TYPE_HEADING_DEPTH = 3"

definition GROUP_LIST_ITEM_DEPTH :: nat where
  "GROUP_LIST_ITEM_DEPTH = 0"

definition UNPUBLISHED_VERSION_NAMES :: "jsstring list" where
  "UNPUBLISHED_VERSION_NAMES = [str ''master'', str ''unpublished'']"

text \<open>
  The optional second argument of \<^verbatim>\<open>isVersionToken\<close> and \<^verbatim>\<open>isChangeTypeToken\<close>: left out,
  a string, or a number. It is a number when the function itself is handed to
  \<^verbatim>\<open>Array.prototype.findIndex\<close>, which calls its callback with the element and its index.
  \<open>falsy\<close> is JavaScript's \<^verbatim>\<open>!x\<close>, \<open>strictEq\<close> is \<^verbatim>\<open>text === x\<close> for a string \<^verbatim>\<open>text\<close>.
\<close>

datatype jsarg = Undefined | Str jsstring | Num nat

fun falsy :: "jsarg \<Rightarrow> bool" where
  "falsy Undefined = True"
| "falsy (Str s) = (s = [])"
| "falsy (Num n) = (n = 0)"

fun strictEq :: "jsstring \<Rightarrow> jsarg \<Rightarrow> bool" where
  "strictEq t (Str s) = (t = s)"
| "strictEq t Undefined = False"
| "strictEq t (Num n) = False"

fun isVersionToken :: "token \<Rightarrow> jsarg \<Rightarrow> bool" where
  "isVersionToken (Heading d t) version =
     (d = VERSION_HEADING_DEPTH \<and> (falsy version \<or> strictEq t version))"
| "isVersionToken _ version = False"

fun isChangeTypeToken :: "token \<Rightarrow> jsarg \<Rightarrow> bool" where
  "isChangeTypeToken (Heading d t) changeType =
     (d = CHANGE_TYPE_HEADING_DEPTH \<and> (falsy changeType \<or> strictEq t changeType))"
| "isChangeTypeToken _ changeType = False"

definition getGroupLabel :: "jsstring \<Rightarrow> jsstring" where
  "getGroupLabel groupName = str ''**`'' @ groupName @ str ''`**''"

text \<open>
  \<^verbatim>\<open>isGroupToken\<close> on an item of a list. Reading \<^verbatim>\<open>firstToken.type\<close> of an item of depth 0
  that has no tokens is a TypeError.
\<close>

fun isGroupToken :: "listItemToken \<Rightarrow> jsstring \<Rightarrow> error + bool" where
  "isGroupToken (ListItemToken d t toks) groupName =
     (if d = GROUP_LIST_ITEM_DEPTH then
        (case toks of
           [] \<Rightarrow> Inl TypeError
         | firstToken # _ \<Rightarrow>
             Inr (case firstToken of TextT ft \<Rightarrow> ft = getGroupLabel groupName | _ \<Rightarrow> False))
      else Inr False)"

text \<open>\<^verbatim>\<open>getChangeEntryLabel\<close>.\<close>

definition pullRequestLink :: "nat \<Rightarrow> jsstring" where
  "pullRequestLink pullRequest =
     str ''[#'' @ showNat pullRequest @ str ''](https://github.com/expo/expo/pull/''
     @ showNat pullRequest @ str '')''"

definition authorLink :: "jsstring \<Rightarrow> jsstring" where
  "authorLink author = str ''[@'' @ author @ str ''](https://github.com/'' @ author @ str '')''"

definition getChangeEntryLabel :: "entry \<Rightarrow> jsstring" where
  "getChangeEntryLabel e =
     (let prs = (case pullRequests e of None \<Rightarrow> [] | Some ps \<Rightarrow> ps);
          auths = (case authors e of None \<Rightarrow> [] | Some as \<Rightarrow> as)
      in if length prs + length auths > 0 then
           (let pullRequestsStr = join (str '', '') (map pullRequestLink prs);
                authorsStr = join (str '', '') (map authorLink auths);
                pullRequestInformations = trim (pullRequestsStr @ str '' by '' @ authorsStr)
            in message e @ str '' ('' @ pullRequestInformations @ str '')'')
         else message e)"

text \<open>
  \<^verbatim>\<open>Array.prototype.findIndex\<close>: the callback gets the element and its index; the result is
  the first index it accepts, or -1. \<^verbatim>\<open>Array.prototype.splice(start, deleteCount, ...items)\<close>:
  a negative \<open>start\<close> counts from the end of the array.
\<close>

fun findIndexFrom :: "('a \<Rightarrow> nat \<Rightarrow> bool) \<Rightarrow> nat \<Rightarrow> 'a list \<Rightarrow> int" where
  "findIndexFrom p i [] = - 1"
| "findIndexFrom p i (x # xs) = (if p x i then int i else findIndexFrom p (i + 1) xs)"

definition findIndex :: "('a \<Rightarrow> nat \<Rightarrow> bool) \<Rightarrow> 'a list \<Rightarrow> int" where
  "findIndex p xs = findIndexFrom p 0 xs"

definition splice :: "'a list \<Rightarrow> int \<Rightarrow> nat \<Rightarrow> 'a list \<Rightarrow> 'a list" where
  "splice xs start deleteCount items =
     (let len = int (length xs);
          actualStart = nat (if start < 0 then max (len + start) 0 else min start len);
          actualDeleteCount = min deleteCount (length xs - actualStart)
      in take actualStart xs @ items @ drop (actualStart + actualDeleteCount) xs)"

subsection \<open>The Changelog class\<close>

text \<open>
  An instance with the file system it works on: \<open>disk\<close> maps a path to the content of
  the file there. Reading a path outside its domain fails; writing always succeeds.
\<close>

record changelog =
  filePath :: jsstring
  tokens :: "token list option"
  disk :: "jsstring \<rightharpoonup> jsstring"

definition getTokensAsync ::
  "(jsstring \<Rightarrow> token list option) \<Rightarrow> changelog \<Rightarrow> token list \<times> changelog" where
  "getTokensAsync lexer cl =
     (case tokens cl of
        Some ts \<Rightarrow> (ts, cl)
      | None \<Rightarrow>
          (let ts = (case disk cl (filePath cl) of
                       None \<Rightarrow> []
                     | Some md \<Rightarrow> (case lexify lexer md of None \<Rightarrow> [] | Some l \<Rightarrow> l))
           in (ts, cl\<lparr>tokens := Some ts\<rparr>)))"

definition saveAsync :: "changelog \<Rightarrow> (error + unit) \<times> changelog" where
  "saveAsync cl =
     (case tokens cl of
        None \<Rightarrow> (Inr (), cl)
      | Some ts \<Rightarrow>
          (case render ts of
             Inl e \<Rightarrow> (Inl e, cl)
           | Inr md \<Rightarrow> (Inr (), cl\<lparr>disk := (disk cl)(filePath cl \<mapsto> md), tokens := None\<rparr>)))"

subsection \<open>getChangesAsync\<close>

text \<open>
  The result object. \<open>versions\<close> and the object of each version are plain JavaScript
  objects used as dictionaries from heading texts; here they are maps that hold the
  properties of the object itself. A lookup \<^verbatim>\<open>obj[key]\<close> also finds what every object inherits
  from \<^verbatim>\<open>Object.prototype\<close>: for the names of \<open>objectPrototypeKeys\<close> it gives a function (for
  \<^verbatim>\<open>__proto__\<close> the prototype object), which is truthy and has no \<^verbatim>\<open>push\<close>.
\<close>

record changelogChanges =
  totalCount :: nat
  versions :: "jsstring \<rightharpoonup> (jsstring \<rightharpoonup> jsstring list)"

record scanState =
  currentVersion :: "jsstring option"
  currentSection :: "jsstring option"
  changes :: changelogChanges

fun truthy :: "jsstring option \<Rightarrow> bool" where
  "truthy None = False"
| "truthy (Some s) = (s \<noteq> [])"

definition objectPrototypeKeys :: "jsstring list" where
  "objectPrototypeKeys =
     [str ''constructor'', str ''__defineGetter__'', str ''__defineSetter__'',
      str ''hasOwnProperty'', str ''__lookupGetter__'', str ''__lookupSetter__'',
      str ''isPrototypeOf'', str ''propertyIsEnumerable'', str ''toString'', str ''valueOf'',
      str ''__proto__'', str ''toLocaleString'']"

definition inherited :: "jsstring \<Rightarrow> bool" where
  "inherited k \<longleftrightarrow> k \<in> set objectPrototypeKeys"

text \<open>
  The branch for a heading of the version depth that does not end the loop. When the key
  names an inherited property, \<^verbatim>\<open>versions[currentVersion]\<close> is the inherited built-in object:
  no object is created, and the headings and lists that follow read and write that shared
  object. The embedding ends there with \<open>OutsideEmbedding\<close>.
\<close>

definition enterVersion :: "scanState \<Rightarrow> jsstring \<Rightarrow> error + scanState" where
  "enterVersion s t =
     (let v = (if t \<in> set UNPUBLISHED_VERSION_NAMES then str ''unpublished'' else t);
          c = changes s
      in if inherited v then Inl (OutsideEmbedding v)
         else Inr (s\<lparr>currentVersion := Some v, currentSection := None,
                     changes := (if versions c v = None
                                 then c\<lparr>versions := (versions c)(v \<mapsto> Map.empty)\<rparr> else c)\<rparr>))"

text \<open>
  The branch for a heading of the change type depth, with \<open>v\<close> the current version:
  \<^verbatim>\<open>if (!versions[v][t]) versions[v][t] = []\<close>. Reading a property of an absent
  \<^verbatim>\<open>versions[v]\<close> is a TypeError; an inherited \<open>t\<close> is found and truthy, so nothing is stored.
\<close>

definition enterSection :: "scanState \<Rightarrow> jsstring \<Rightarrow> jsstring \<Rightarrow> error + scanState" where
  "enterSection s v t =
     (let c = changes s
      in case versions c v of
           None \<Rightarrow> Inl TypeError
         | Some m \<Rightarrow>
             Inr (s\<lparr>currentSection := Some t,
                    changes := (if \<not> inherited t \<and> m t = None
                                then c\<lparr>versions := (versions c)(v \<mapsto> m(t \<mapsto> []))\<rparr> else c)\<rparr>))"

definition itemText :: "listItemToken \<Rightarrow> jsstring" where
  "itemText it = (case it of ListItemToken d t toks \<Rightarrow> t)"

text \<open>
  The body of the loop over the items of a list: \<^verbatim>\<open>changes.totalCount++\<close> and
  \<^verbatim>\<open>versions[v][t].push(item.text)\<close>. The \<^verbatim>\<open>push\<close> is a TypeError when \<open>versions[v]\<close> is absent,
  and when \<open>versions[v]\<close> has no array of its own for \<open>t\<close>: then \<^verbatim>\<open>versions[v][t]\<close> is
  \<^verbatim>\<open>undefined\<close> or, for an inherited \<open>t\<close>, a built-in without \<^verbatim>\<open>push\<close>.
\<close>

definition pushItem :: "scanState \<Rightarrow> jsstring \<Rightarrow> jsstring \<Rightarrow> listItemToken \<Rightarrow> error + scanState" where
  "pushItem s v t it =
     (let c = changes s
      in case versions c v of
           None \<Rightarrow> Inl TypeError
         | Some m \<Rightarrow>
             (case m t of
                None \<Rightarrow> Inl TypeError
              | Some l \<Rightarrow>
                  Inr (s\<lparr>changes := c\<lparr>totalCount := totalCount c + 1,
                                        versions := (versions c)(v \<mapsto> m(t \<mapsto> l @ [itemText it]))\<rparr>\<rparr>)))"

fun pushItems :: "scanState \<Rightarrow> jsstring \<Rightarrow> jsstring \<Rightarrow> listItemToken list \<Rightarrow> error + scanState" where
  "pushItems s v t [] = Inr s"
| "pushItems s v t (it # its) =
     (case pushItem s v t it of
        Inl e \<Rightarrow> Inl e
      | Inr s' \<Rightarrow> pushItems s' v t its)"

text \<open>
  The condition of the loop's \<^verbatim>\<open>break\<close>, for a heading of the version depth with text \<open>t\<close>.
\<close>

definition stopsAt :: "jsstring option \<Rightarrow> jsstring \<Rightarrow> jsstring \<Rightarrow> bool" where
  "stopsAt fromVersion toVersion t \<longleftrightarrow> t \<noteq> toVersion \<and> (\<not> truthy fromVersion \<or> Some t = fromVersion)"

fun getChangesLoop ::
  "jsstring option \<Rightarrow> jsstring \<Rightarrow> scanState \<Rightarrow> token list \<Rightarrow> error + scanState" where
  "getChangesLoop fromVersion toVersion s [] = Inr s"
| "getChangesLoop fromVersion toVersion s (Heading d t # rest) =
     (if d = VERSION_HEADING_DEPTH then
        (if stopsAt fromVersion toVersion t then Inr s
         else (case enterVersion s t of
                 Inl e \<Rightarrow> Inl e
               | Inr s' \<Rightarrow> getChangesLoop fromVersion toVersion s' rest))
      else if truthy (currentVersion s) \<and> d = CHANGE_TYPE_HEADING_DEPTH then
        (case enterSection s (the (currentVersion s)) t of
           Inl e \<Rightarrow> Inl e
         | Inr s' \<Rightarrow> getChangesLoop fromVersion toVersion s' rest)
      else getChangesLoop fromVersion toVersion s rest)"
| "getChangesLoop fromVersion toVersion s (ListT (ListToken d items ordered) # rest) =
     (if truthy (currentVersion s) \<and> truthy (currentSection s) then
        (case pushItems s (the (currentVersion s)) (the (currentSection s)) items of
           Inl e \<Rightarrow> Inl e
         | Inr s' \<Rightarrow> getChangesLoop fromVersion toVersion s' rest)
      else getChangesLoop fromVersion toVersion s rest)"
| "getChangesLoop fromVersion toVersion s (_ # rest) = getChangesLoop fromVersion toVersion s rest"

definition initialScan :: scanState where
  "initialScan = \<lparr>currentVersion = None, currentSection = None,
                  changes = \<lparr>totalCount = 0, versions = Map.empty\<rparr>\<rparr>"

definition getChanges ::
  "jsstring option \<Rightarrow> jsstring option \<Rightarrow> token list \<Rightarrow> error + changelogChanges" where
  "getChanges fromVersion toVersion ts =
     (case getChangesLoop fromVersion
             (case toVersion of None \<Rightarrow> UNPUBLISHED_VERSION_NAME | Some t \<Rightarrow> t) initialScan ts of
        Inl e \<Rightarrow> Inl e
      | Inr s \<Rightarrow> Inr (changes s))"

definition getChangesAsync ::
  "(jsstring \<Rightarrow> token list option) \<Rightarrow> jsstring option \<Rightarrow> jsstring option \<Rightarrow> changelog
     \<Rightarrow> (error + changelogChanges) \<times> changelog" where
  "getChangesAsync lexer fromVersion toVersion cl =
     (case getTokensAsync lexer cl of (ts, cl') \<Rightarrow> (getChanges fromVersion toVersion ts, cl'))"

subsection \<open>insertEntriesAsync\<close>

text \<open>
  The inner loop over \<open>j\<close>: it ends at the first list token, or at the first heading whose
  depth is less than the depth of the change type heading, or at the end of the array.
\<close>

function findListFrom :: "token list \<Rightarrow> nat \<Rightarrow> nat \<Rightarrow> listToken option \<times> nat" where
  "findListFrom ts depth j =
     (if j < length ts then
        (case ts ! j of
           ListT l \<Rightarrow> (Some l, j)
         | Heading d t \<Rightarrow> if d < depth then (None, j) else findListFrom ts depth (j + 1)
         | _ \<Rightarrow> findListFrom ts depth (j + 1))
      else (None, j))"
  by pat_completeness auto
termination
  by (relation "measure (\<lambda>(ts, depth, j). length ts - j)") auto

declare findListFrom.simps [simp del]

text \<open>The loop over the entries: each one sets the depth of the list and pushes an item.\<close>

fun pushEntries :: "listToken \<Rightarrow> bool \<Rightarrow> entry list \<Rightarrow> listToken" where
  "pushEntries l grouped [] = l"
| "pushEntries (ListToken d items ordered) grouped (e # es) =
     pushEntries
       (ListToken (if grouped then 1 else 0)
          (items @ [createListItemToken (getChangeEntryLabel e) 0]) ordered)
       grouped es"

text \<open>
  The group branch. \<open>addToGroupList\<close> works on the tokens of the group's item: the first
  list among them takes the entries, and a new list of depth \<open>GROUP_LIST_ITEM_DEPTH\<close> is
  pushed when there is none. \<open>addToGroup\<close> works on the items of the section's list: the
  first item that \<open>isGroupToken\<close> accepts is the group (\<^verbatim>\<open>findGroup\<close>), and a new item with
  the group's label is pushed when there is none. Both objects are changed in place.
\<close>

fun addToGroupList :: "token list \<Rightarrow> entry list \<Rightarrow> token list" where
  "addToGroupList [] entries = [ListT (pushEntries (createListToken GROUP_LIST_ITEM_DEPTH) True entries)]"
| "addToGroupList (ListT gl # ts) entries = ListT (pushEntries gl True entries) # ts"
| "addToGroupList (t # ts) entries = t # addToGroupList ts entries"

definition addToGroupItem :: "listItemToken \<Rightarrow> entry list \<Rightarrow> listItemToken" where
  "addToGroupItem it entries =
     (case it of ListItemToken d t toks \<Rightarrow> ListItemToken d t (addToGroupList toks entries))"

fun addToGroup :: "listItemToken list \<Rightarrow> jsstring \<Rightarrow> entry list \<Rightarrow> error + listItemToken list" where
  "addToGroup [] grp entries =
     Inr [addToGroupItem (createListItemToken (getGroupLabel grp) 0) entries]"
| "addToGroup (it # its) grp entries =
     (case isGroupToken it grp of
        Inl e \<Rightarrow> Inl e
      | Inr True \<Rightarrow> Inr (addToGroupItem it entries # its)
      | Inr False \<Rightarrow>
          (case addToGroup its grp entries of
             Inl e \<Rightarrow> Inl e
           | Inr its' \<Rightarrow> Inr (it # its')))"

definition insertIntoList :: "listToken \<Rightarrow> jsstring option \<Rightarrow> entry list \<Rightarrow> error + listToken" where
  "insertIntoList l grp entries =
     (if truthy grp then
        (case l of ListToken d items ordered \<Rightarrow>
           (case addToGroup items (the grp) entries of
              Inl e \<Rightarrow> Inl e
            | Inr items' \<Rightarrow> Inr (ListToken d items' ordered)))
      else Inr (pushEntries l False entries))"

definition tokenDepth :: "token \<Rightarrow> nat" where
  "tokenDepth t = (case t of Heading d x \<Rightarrow> d | _ \<Rightarrow> 0)"

text \<open>
  The body of the branch for the change type heading at index \<open>i\<close>: the list is the one
  the inner loop found, or a new one (\<^verbatim>\<open>createListToken()\<close>, depth 1) spliced in at \<open>j\<close>.
\<close>

definition insertIntoSection ::
  "token list \<Rightarrow> nat \<Rightarrow> jsstring option \<Rightarrow> entry list \<Rightarrow> error + token list" where
  "insertIntoSection ts i grp entries =
     (case findListFrom ts (tokenDepth (ts ! i)) (i + 1) of
        (Some l, j) \<Rightarrow>
          (case insertIntoList l grp entries of
             Inl e \<Rightarrow> Inl e
           | Inr l' \<Rightarrow> Inr (ts[j := ListT l']))
      | (None, j) \<Rightarrow>
          (case insertIntoList (createListToken 1) grp entries of
             Inl e \<Rightarrow> Inl e
           | Inr l' \<Rightarrow> Inr (splice ts (int j) 0 [ListT l'])))"

text \<open>The outer loop over \<open>i\<close>, from the token after the version heading.\<close>

function insertLoop ::
  "token list \<Rightarrow> jsstring \<Rightarrow> jsstring option \<Rightarrow> entry list \<Rightarrow> nat \<Rightarrow> error + token list" where
  "insertLoop ts type grp entries i =
     (if i < length ts then
        (if isVersionToken (ts ! i) Undefined then Inr ts
         else if isChangeTypeToken (ts ! i) (Str type) then insertIntoSection ts i grp entries
         else insertLoop ts type grp entries (i + 1))
      else Inl (ChangeTypeSectionNotFound type))"
  by pat_completeness auto
termination
  by (relation "measure (\<lambda>(ts, type, grp, entries, i). length ts - i)") auto

declare insertLoop.simps [simp del]

definition insertEntriesAsync ::
  "(jsstring \<Rightarrow> token list option) \<Rightarrow> jsstring \<Rightarrow> jsstring \<Rightarrow> jsstring option \<Rightarrow> entry list
     \<Rightarrow> changelog \<Rightarrow> (error + unit) \<times> changelog" where
  "insertEntriesAsync lexer version type grp entries cl =
     (if length entries = 0 then (Inr (), cl)
      else
        (case getTokensAsync lexer cl of (ts, cl') \<Rightarrow>
           (let sectionIndex = findIndex (\<lambda>token i. isVersionToken token (Str version)) ts
            in if sectionIndex = - 1 then (Inl (VersionNotFound version), cl')
               else
                 (case insertLoop ts type grp entries (nat sectionIndex + 1) of
                    Inl e \<Rightarrow> (Inl e, cl')
                  | Inr ts' \<Rightarrow> (Inr (), cl'\<lparr>tokens := Some ts'\<rparr>)))))"

definition addChangeAsync ::
  "(jsstring \<Rightarrow> token list option) \<Rightarrow> jsstring \<Rightarrow> jsstring \<Rightarrow> jsstring \<Rightarrow> entry
     \<Rightarrow> changelog \<Rightarrow> (error + unit) \<times> changelog" where
  "addChangeAsync lexer version type groupName e cl =
     insertEntriesAsync lexer version type (Some groupName) [e] cl"

subsection \<open>cutOffAsync\<close>

definition newSectionTokens :: "token list" where
  "newSectionTokens =
     [Heading VERSION_HEADING_DEPTH UNPUBLISHED_VERSION_NAME,
      Heading CHANGE_TYPE_HEADING_DEPTH BREAKING_CHANGES,
      Heading CHANGE_TYPE_HEADING_DEPTH NEW_FEATURES,
      Heading CHANGE_TYPE_HEADING_DEPTH BUG_FIXES]"

text \<open>
  The \<^verbatim>\<open>while\<close> loop that removes the change type headings of empty sections; it returns
  the array and the final \<open>i\<close>. \<^verbatim>\<open>tokens[i + 1]\<close> past the end is \<^verbatim>\<open>undefined\<close>.
\<close>

function cleanUp :: "token list \<Rightarrow> nat \<Rightarrow> token list \<times> nat" where
  "cleanUp ts i =
     (if i < length ts \<and> \<not> isVersionToken (ts ! i) Undefined then
        (if isChangeTypeToken (ts ! i) Undefined \<and>
            (\<not> i + 1 < length ts \<or> isChangeTypeToken (ts ! (i + 1)) Undefined
             \<or> isVersionToken (ts ! (i + 1)) Undefined)
         then cleanUp (splice ts (int i) 1 []) i
         else cleanUp ts (i + 1))
      else (ts, i))"
  by pat_completeness auto
termination
  by (relation "measure (\<lambda>(ts, i). length ts - i)") (auto simp: splice_def Let_def)

declare cleanUp.simps [simp del]

definition setText :: "token \<Rightarrow> jsstring \<Rightarrow> token" where
  "setText tok v = (case tok of Heading d t \<Rightarrow> Heading d v | _ \<Rightarrow> tok)"

text \<open>
  \<^verbatim>\<open>cutOffAsync\<close>. \<open>isVersionToken\<close> itself is the callback of \<^verbatim>\<open>findIndex\<close>, so its second
  argument is the index of the token. The array is copied, its tokens are not: the renamed
  heading is also the heading of the cached array, which is what stays in \<open>tokens\<close> when the
  rendering fails. The splice at the end gets \<open>firstVersionHeadingIndex\<close> as it is.
\<close>

definition cutOffTokens :: "token list \<Rightarrow> jsstring \<Rightarrow> token list" where
  "cutOffTokens ts version =
     (let firstVersionHeadingIndex = findIndex (\<lambda>token i. isVersionToken token (Num i)) ts;
          cleaned =
            (if firstVersionHeadingIndex \<noteq> - 1 then
               (let k = nat firstVersionHeadingIndex;
                    renamed = ts[k := setText (ts ! k) version]
                in case cleanUp renamed (k + 1) of
                     (ts', i) \<Rightarrow>
                       if i = k + 1
                       then splice ts' (int i) 0 [Paragraph VERSION_EMPTY_PARAGRAPH_TEXT]
                       else ts')
             else ts)
      in splice cleaned firstVersionHeadingIndex 0 newSectionTokens)"

definition cutOffAsync ::
  "(jsstring \<Rightarrow> token list option) \<Rightarrow> jsstring \<Rightarrow> changelog \<Rightarrow> (error + unit) \<times> changelog" where
  "cutOffAsync lexer version cl =
     (case getTokensAsync lexer cl of (ts, cl') \<Rightarrow>
        (case render (cutOffTokens ts version) of
           Inl e \<Rightarrow>
             (let firstVersionHeadingIndex = findIndex (\<lambda>token i. isVersionToken token (Num i)) ts
              in (Inl e,
                  if firstVersionHeadingIndex \<noteq> - 1
                  then cl'\<lparr>tokens := Some (ts[nat firstVersionHeadingIndex :=
                                              setText (ts ! nat firstVersionHeadingIndex) version])\<rparr>
                  else cl'))
         | Inr md \<Rightarrow> (Inr (), cl'\<lparr>disk := (disk cl')(filePath cl' \<mapsto> md), tokens := None\<rparr>)))"

subsection \<open>Auxiliary notions for the properties\<close>



text \<open>
  A token sequence of the seven kinds the renderer knows, at every level: no \<open>Other\<close>
  token anywhere in it.
\<close>

fun supportedToken :: "token \<Rightarrow> bool"
and supportedList :: "listToken \<Rightarrow> bool"
and supportedItems :: "listItemToken list \<Rightarrow> bool"
and supportedItem :: "listItemToken \<Rightarrow> bool"
and supportedTokens :: "token list \<Rightarrow> bool"
where
  "supportedToken (Other ty) = False"
| "supportedToken (ListT l) = supportedList l"
| "supportedToken (ListItemT it) = supportedItem it"
| "supportedToken (Heading d t) = True"
| "supportedToken (Paragraph t) = True"
| "supportedToken (TextT t) = True"
| "supportedToken Space = True"
| "supportedToken (Code t lang) = True"
| "supportedList (ListToken d items ordered) = supportedItems items"
| "supportedItems [] = True"
| "supportedItems (it # its) = (supportedItem it \<and> supportedItems its)"
| "supportedItem (ListItemToken d t toks) = supportedTokens toks"
| "supportedTokens [] = True"
| "supportedTokens (t # ts) = (supportedToken t \<and> supportedTokens ts)"

text \<open>A text that ends with a line break, and with one only.\<close>

definition endsWithOneNewline :: "jsstring \<Rightarrow> bool" where
  "endsWithOneNewline s \<longleftrightarrow>
     s \<noteq> [] \<and> last s = 10 \<and> (butlast s = [] \<or> last (butlast s) \<noteq> 10)"


text \<open>
  The entries under the change type headings of a version section, read off the tokens of
  the section: each item of a top-level list that follows a change type heading with a
  non-empty text, paired with the text of that heading, in document order. The items of a
  list that stands before the first change type heading of the section, or under a change
  type heading whose text is empty, are no entries. \<open>sec\<close> is the change type heading
  passed last.
\<close>

fun entriesUnder :: "jsstring option \<Rightarrow> token list \<Rightarrow> (jsstring \<times> jsstring) list" where
  "entriesUnder sec [] = []"
| "entriesUnder sec (Heading d t # rest) =
     entriesUnder (if d = CHANGE_TYPE_HEADING_DEPTH then Some t else sec) rest"
| "entriesUnder sec (ListT (ListToken d items ordered) # rest) =
     (if truthy sec then map (\<lambda>it. (the sec, itemText it)) items else [])
     @ entriesUnder sec rest"
| "entriesUnder sec (_ # rest) = entriesUnder sec rest"

text \<open>The entries that a result holds for a version and a change type; none when a key is absent.\<close>

definition entriesAt :: "changelogChanges \<Rightarrow> jsstring \<Rightarrow> jsstring \<Rightarrow> jsstring list" where
  "entriesAt c v t =
     (case versions c v of
        None \<Rightarrow> []
      | Some m \<Rightarrow> (case m t of None \<Rightarrow> [] | Some l \<Rightarrow> l))"

text \<open>The same, and the total count, of the outcome of a call.\<close>

definition entriesIn :: "error + changelogChanges \<Rightarrow> jsstring \<Rightarrow> jsstring \<Rightarrow> error + jsstring list" where
  "entriesIn r v t = (case r of Inl e \<Rightarrow> Inl e | Inr c \<Rightarrow> Inr (entriesAt c v t))"

definition countIn :: "error + changelogChanges \<Rightarrow> error + nat" where
  "countIn r = (case r of Inl e \<Rightarrow> Inl e | Inr c \<Rightarrow> Inr (totalCount c))"



text \<open>
  What the loop of \<open>getChangesAsync\<close> does to its state \<open>s\<close> over the tokens \<open>body\<close> of one
  version section (no heading of the version depth among them), in terms of \<open>entriesUnder\<close>.
\<close>

definition bodyInv :: "jsstring \<Rightarrow> scanState \<Rightarrow> token list \<Rightarrow> scanState \<Rightarrow> bool" where
  "bodyInv v s body s' \<longleftrightarrow>
     totalCount (changes s') = totalCount (changes s) + length (entriesUnder (currentSection s) body)
     \<and> (\<forall>t. entriesAt (changes s') v t =
              entriesAt (changes s) v t
              @ map snd (filter (\<lambda>p. fst p = t) (entriesUnder (currentSection s) body)))
     \<and> (\<forall>k. k \<noteq> v \<longrightarrow> versions (changes s') k = versions (changes s) k)"

section \<open>Properties\<close>

subsection \<open>Strings\<close>

lemma isWhiteSpace_simps [simp]:
  "\<not> isWhiteSpace 91" "\<not> isWhiteSpace 41" "\<not> isWhiteSpace 121" "isWhiteSpace 32"
  "\<not> isWhiteSpace 98" "isWhiteSpace 10"
  by (simp_all add: isWhiteSpace_def)

lemma trimRight_keep: "s \<noteq> [] \<Longrightarrow> \<not> isWhiteSpace (last s) \<Longrightarrow> trimRight s = s"
  by (cases s rule: rev_cases) (simp_all add: trimRight_def)





subsection \<open>The label of an entry\<close>










subsection \<open>Inserting entries\<close>

text \<open>
  C10. With an empty array of entries \<open>insertEntriesAsync\<close> returns at once: it succeeds
  and leaves the instance as it is, for every version, type and group. The tokens are not
  even loaded, so a version heading that is absent raises nothing.
\<close>

theorem insertEntries_empty:
  "insertEntriesAsync lexer version type grp [] cl = (Inr (), cl)"
  by (simp add: insertEntriesAsync_def)

subsection \<open>Rendering\<close>

lemma renderer_total:
  "supportedToken t \<Longrightarrow> \<exists>out. renderToken ctx t = Inr out"
  "supportedList l \<Longrightarrow> \<exists>out. render_list ctx l = Inr out"
  "supportedItems items \<Longrightarrow> \<exists>out. render_items ctx ordered i items = Inr out"
  "supportedItem it \<Longrightarrow> \<exists>out. render_listItem ctx it = Inr out"
  "supportedTokens toks \<Longrightarrow> \<exists>out. render_children ctx toks = Inr out"
proof (induction ctx t and ctx l and ctx ordered i items and ctx it and ctx toks
       rule: renderToken_render_list_render_items_render_listItem_render_children.induct)
qed (auto split: sum.splits)

lemma MarkdownRenderer_render_total:
  "supportedTokens ts \<Longrightarrow> \<exists>out. MarkdownRenderer_render ts = Inr out"
proof (induction ts)
  case Nil
  show ?case by simp
next
  case (Cons t ts)
  from Cons.prems have "supportedToken t" and "supportedTokens ts" by simp_all
  with Cons.IH renderer_total(1)[of t "\<lparr>ctx_indent = Some 0, ctx_orderedList = False, ctx_itemIndex = None\<rparr>"]
  obtain a b where
    "renderToken \<lparr>ctx_indent = Some 0, ctx_orderedList = False, ctx_itemIndex = None\<rparr> t = Inr a"
    "MarkdownRenderer_render ts = Inr b"
    by blast
  then show ?case by simp
qed

lemma trimRight_last: "trimRight s = [] \<or> \<not> isWhiteSpace (last (trimRight s))"
proof (cases "dropWhile isWhiteSpace (rev s)")
  case Nil then show ?thesis by (simp add: trimRight_def)
next
  case (Cons a l)
  then have "\<not> isWhiteSpace a" using hd_dropWhile[of isWhiteSpace "rev s"] by simp
  with Cons show ?thesis by (simp add: trimRight_def)
qed

lemma trim_last: "trim s = [] \<or> \<not> isWhiteSpace (last (trim s))"
  by (simp add: trim_def trimRight_last)

lemma take_entity:
  assumes "10 \<notin> set e"
  shows "(take (length e) (s @ [10::nat]) = e) = (take (length e) s = e)"
proof (cases "length e \<le> length s")
  case True then show ?thesis by simp
next
  case False
  then have a: "take (length e) (s @ [10]) = s @ take (length e - length s) [10]" by simp
  from False have "length e - length s > 0" by simp
  then have b: "take (length e - length s) [10::nat] = [10]" by (cases "length e - length s") simp_all
  have "s @ [10] \<noteq> e" using assms by auto
  moreover have "take (length e) s \<noteq> e"
  proof
    assume "take (length e) s = e"
    then have "length (take (length e) s) = length e" by simp
    with False show False by simp
  qed
  ultimately show ?thesis using a b by simp
qed



lemma startsWith_snoc: "10 \<notin> set e \<Longrightarrow> startsWith e (s @ [10]) = startsWith e s"
  unfolding startsWith_def by (rule take_entity)

lemma startsWith_length: "startsWith e s \<Longrightarrow> length e \<le> length s"
proof -
  assume "startsWith e s"
  then have "length (take (length e) s) = length e" by (simp add: startsWith_def)
  then show ?thesis by simp
qed

lemma matchEntity_snoc: "matchEntity (s @ [10]) = matchEntity s"
proof -
  have "10 \<notin> set (str ''&amp;'')" "10 \<notin> set (str ''&lt;'')" "10 \<notin> set (str ''&gt;'')"
    "10 \<notin> set (str ''&quot;'')" "10 \<notin> set (str ''&#39;'')"
    by (simp_all add: str_def)
  then show ?thesis by (simp add: matchEntity_def startsWith_snoc)
qed

lemma matchEntity_Some:
  assumes "matchEntity s = Some (r, n)"
  shows "0 < n \<and> n \<le> length s \<and> \<not> isWhiteSpace r"
proof -
  have l: "length (str ''&amp;'') = 5" "length (str ''&lt;'') = 4" "length (str ''&gt;'') = 4"
    "length (str ''&quot;'') = 6" "length (str ''&#39;'') = 5"
    by (simp_all add: str_def)
  have w: "\<not> isWhiteSpace 38" "\<not> isWhiteSpace 60" "\<not> isWhiteSpace 62" "\<not> isWhiteSpace 34"
    "\<not> isWhiteSpace 39"
    by (simp_all add: isWhiteSpace_def)
  show ?thesis
    using assms l w
      startsWith_length[of "str ''&amp;''" s] startsWith_length[of "str ''&lt;''" s]
      startsWith_length[of "str ''&gt;''" s] startsWith_length[of "str ''&quot;''" s]
      startsWith_length[of "str ''&#39;''" s]
    by (auto simp: matchEntity_def split: if_splits)
qed

lemma unescape_snoc: "unescape (s @ [10]) = unescape s @ [10]"
proof (induction s rule: unescape.induct)
  case 1
  have "matchEntity [10] = None"
    by (simp add: matchEntity_def startsWith_def str_def)
  then show ?case by simp
next
  case (2 c cs)
  have m: "matchEntity (c # (cs @ [10])) = matchEntity (c # cs)"
    using matchEntity_snoc[of "c # cs"] by simp
  show ?case
  proof (cases "matchEntity (c # cs)")
    case None
    with 2(1) m show ?thesis by simp
  next
    case (Some p)
    obtain r n where p: "p = (r, n)" by (cases p)
    from Some p have S: "matchEntity (c # cs) = Some (r, n)" by simp
    from matchEntity_Some[OF S] have "n - 1 \<le> length cs" by auto
    then have "drop (n - 1) (cs @ [10]) = drop (n - 1) cs @ [10]" by simp
    with 2(2)[OF S refl] S m show ?thesis by simp
  qed
qed

lemma unescape_last:
  "s \<noteq> [] \<Longrightarrow> \<not> isWhiteSpace (last s) \<Longrightarrow> unescape s \<noteq> [] \<and> \<not> isWhiteSpace (last (unescape s))"
proof (induction s rule: unescape.induct)
  case 1
  then show ?case by simp
next
  case (2 c cs)
  show ?case
  proof (cases "matchEntity (c # cs)")
    case None
    show ?thesis
    proof (cases "cs = []")
      case True
      with None 2(3,4) show ?thesis by simp
    next
      case False
      with 2(1)[OF None] 2(4) have "unescape cs \<noteq> [] \<and> \<not> isWhiteSpace (last (unescape cs))" by simp
      with None show ?thesis by simp
    qed
  next
    case (Some p)
    obtain r n where p: "p = (r, n)" by (cases p)
    from Some p have S: "matchEntity (c # cs) = Some (r, n)" by simp
    from matchEntity_Some[OF S]
    have n: "0 < n" "n - 1 \<le> length cs" and r: "\<not> isWhiteSpace r" by auto
    show ?thesis
    proof (cases "drop (n - 1) cs = []")
      case True
      with S r show ?thesis by simp
    next
      case False
      then have "last (drop (n - 1) cs) = last cs" by simp
      moreover from False have "cs \<noteq> []" by auto
      ultimately have "\<not> isWhiteSpace (last (drop (n - 1) cs))" using 2(4) by simp
      with 2(2)[OF S refl] False
      have "unescape (drop (n - 1) cs) \<noteq> [] \<and> \<not> isWhiteSpace (last (unescape (drop (n - 1) cs)))"
        by simp
      with S show ?thesis by simp
    qed
  qed
qed

text \<open>
  C8 (as amended). For every token sequence of the seven kinds, the renderer returns
  a text and \<open>render\<close> returns that text trimmed at both ends (leading white space is
  removed as well as trailing white space), with the HTML entities replaced and one line
  break appended. The part before the line break does not end with white space, so the
  result ends with exactly one newline.
\<close>

theorem render_trimmed_one_newline:
  assumes "supportedTokens ts"
  shows "\<exists>out. MarkdownRenderer_render ts = Inr out
           \<and> render ts = Inr (unescape (trim out) @ EOL)
           \<and> trimRight (unescape (trim out)) = unescape (trim out)
           \<and> endsWithOneNewline (unescape (trim out) @ EOL)"
proof -
  from MarkdownRenderer_render_total[OF assms]
  obtain out where out: "MarkdownRenderer_render ts = Inr out" by blast
  let ?body = "unescape (trim out)"
  have r: "render ts = Inr (?body @ EOL)"
    using out unescape_snoc[of "trim out"] by (simp add: render_def EOL_def)
  have b: "?body = [] \<or> (?body \<noteq> [] \<and> \<not> isWhiteSpace (last ?body))"
  proof (cases "trim out = []")
    case True
    then show ?thesis by simp
  next
    case False
    with trim_last[of out] have "\<not> isWhiteSpace (last (trim out))" by simp
    with False unescape_last[of "trim out"] show ?thesis by simp
  qed
  have t: "trimRight ?body = ?body"
    using b trimRight_keep[of ?body] by (auto simp: trimRight_def)
  have e: "endsWithOneNewline (?body @ EOL)"
    using b by (auto simp: endsWithOneNewline_def EOL_def)
  from out r t e show ?thesis by blast
qed

subsection \<open>Evaluation at concrete inputs\<close>

lemma repeat_numerals:
  "repeat s 1 = s" "repeat s 2 = s @ s" "repeat s 3 = s @ s @ s"
  by (simp_all add: repeat_def numeral_2_eq_2 numeral_3_eq_3)

lemmas ev_defs = repeat_numerals str_def EOL_def render_def render_heading_def render_paragraph_def indent_def
  bullet_def trim_def trimLeft_def trimRight_def isWhiteSpace_def matchEntity_def
  startsWith_def

lemmas cl_defs = VERSION_HEADING_DEPTH_def CHANGE_TYPE_HEADING_DEPTH_def GROUP_LIST_ITEM_DEPTH_def
  UNPUBLISHED_VERSION_NAME_def BREAKING_CHANGES_def NEW_FEATURES_def BUG_FIXES_def
  UNPUBLISHED_VERSION_NAMES_def VERSION_EMPTY_PARAGRAPH_TEXT_def

lemmas scan_defs = getChanges_def initialScan_def enterVersion_def enterSection_def
  pushItem_def stopsAt_def entriesAt_def entriesIn_def countIn_def itemText_def inherited_def
  objectPrototypeKeys_def Let_def

theorem render_trimmed_one_newline_witness:
  "supportedTokens
     [Heading 2 (str ''master''),
      ListT (ListToken 0 [ListItemToken 0 (str ''a &amp; b'') [TextT (str ''a &amp; b'')]] False)]
   \<and> render
     [Heading 2 (str ''master''),
      ListT (ListToken 0 [ListItemToken 0 (str ''a &amp; b'') [TextT (str ''a &amp; b'')]] False)]
     = Inr (str ''## master'' @ [10, 10] @ str ''- a & b'' @ [10])"
  using render_trimmed_one_newline
    [of "[Heading 2 (str ''master''),
      ListT (ListToken 0 [ListItemToken 0 (str ''a &amp; b'') [TextT (str ''a &amp; b'')]] False)]"]
  by (simp add: ev_defs)

text \<open>
  The claim C8 as written fails where the renderer's output starts with white space: for
  a Space token followed by a paragraph the renderer gives a line break, \<^verbatim>\<open>a\<close> and a line
  break; right-trimmed and ended with one line break that is the same text again, but
  \<open>render\<close> returns \<^verbatim>\<open>a\<close> and a line break, the leading line break trimmed away.
\<close>

theorem render_trims_both_ends_counterexample:
  "MarkdownRenderer_render [Space, Paragraph (str ''a'')] = Inr [10, 97, 10]
   \<and> render [Space, Paragraph (str ''a'')] = Inr [97, 10]
   \<and> unescape (trimRight [10, 97, 10]) @ EOL = [10, 97, 10]"
  by (simp add: ev_defs)

text \<open>
  C1. The claim fails on the code: the inner loop goes on past a heading of the same
  depth (\<^verbatim>\<open>item.depth < changeTypeToken.depth\<close>), so with an empty "Breaking changes"
  section followed by "New features" and its list, an entry for "Breaking changes" is
  pushed to the list of "New features"; and with no list in the version at all, the new
  list is spliced in after "New features", before the next version heading. Read back by
  \<open>getChangesAsync\<close>, the entry is a new feature and the breaking changes are empty.
\<close>

theorem insertEntries_into_later_section:
  "insertEntriesAsync lexer (str ''master'') BREAKING_CHANGES None
     [\<lparr>message = str ''Removed Y'', pullRequests = None, authors = None\<rparr>]
     \<lparr>filePath = str ''CHANGELOG.md'',
      tokens = Some [Heading 2 (str ''master''), Heading 3 BREAKING_CHANGES, Heading 3 NEW_FEATURES,
                     ListT (ListToken 0 [ListItemToken 0 (str ''Added X'') [TextT (str ''Added X'')]] False)],
      disk = Map.empty\<rparr>
   = (Inr (),
      \<lparr>filePath = str ''CHANGELOG.md'',
       tokens = Some [Heading 2 (str ''master''), Heading 3 BREAKING_CHANGES, Heading 3 NEW_FEATURES,
                      ListT (ListToken 0 [ListItemToken 0 (str ''Added X'') [TextT (str ''Added X'')],
                                          ListItemToken 0 (str ''Removed Y'') [TextT (str ''Removed Y'')]] False)],
       disk = Map.empty\<rparr>)
   \<and> insertLoop [Heading 2 (str ''master''), Heading 3 BREAKING_CHANGES, Heading 3 NEW_FEATURES,
                 Heading 2 (str ''1.0.0'')] BREAKING_CHANGES None
        [\<lparr>message = str ''Removed Y'', pullRequests = None, authors = None\<rparr>] 1
     = Inr [Heading 2 (str ''master''), Heading 3 BREAKING_CHANGES, Heading 3 NEW_FEATURES,
            ListT (ListToken 0 [ListItemToken 0 (str ''Removed Y'') [TextT (str ''Removed Y'')]] False),
            Heading 2 (str ''1.0.0'')]
   \<and> entriesIn (getChanges None None
        [Heading 2 (str ''master''), Heading 3 BREAKING_CHANGES, Heading 3 NEW_FEATURES,
         ListT (ListToken 0 [ListItemToken 0 (str ''Added X'') [TextT (str ''Added X'')],
                             ListItemToken 0 (str ''Removed Y'') [TextT (str ''Removed Y'')]] False)])
       (str ''unpublished'') NEW_FEATURES = Inr [str ''Added X'', str ''Removed Y'']
   \<and> entriesIn (getChanges None None
        [Heading 2 (str ''master''), Heading 3 BREAKING_CHANGES, Heading 3 NEW_FEATURES,
         ListT (ListToken 0 [ListItemToken 0 (str ''Added X'') [TextT (str ''Added X'')],
                             ListItemToken 0 (str ''Removed Y'') [TextT (str ''Removed Y'')]] False)])
       (str ''unpublished'') BREAKING_CHANGES = Inr []"
proof (intro conjI)
qed (simp_all add: insertEntriesAsync_def getTokensAsync_def findIndex_def insertLoop.simps
      insertIntoSection_def findListFrom.simps tokenDepth_def insertIntoList_def
      createListItemToken_def createTextToken_def createListToken_def getChangeEntryLabel_def
      splice_def scan_defs cl_defs str_def)

text \<open>
  C2. The claim fails on the code: without a version heading \<^verbatim>\<open>findIndex\<close> gives -1, and
  \<^verbatim>\<open>splice(-1, 0, ...)\<close> inserts before the last token. With two tokens in the document the
  new section lands between them, not at position 0.
\<close>

theorem cutOff_without_version_heading:
  "cutOffTokens [Heading 1 (str ''Changelog''), Paragraph (str ''Notes'')] (str ''1.0.0'')
   = [Heading 1 (str ''Changelog''),
      Heading 2 (str ''master''), Heading 3 BREAKING_CHANGES, Heading 3 NEW_FEATURES,
      Heading 3 BUG_FIXES,
      Paragraph (str ''Notes'')]"
  by (simp add: cutOffTokens_def findIndex_def splice_def newSectionTokens_def cl_defs str_def)

text \<open>
  C6. The claim fails on the code: \<^verbatim>\<open>tokens.findIndex(isVersionToken)\<close> hands the index to
  \<open>isVersionToken\<close> as its version, so a version heading is found at index 0 only. In a
  changelog that starts with a title, the master heading is not found: nothing is renamed,
  no empty section is removed, no placeholder is inserted, and the new section is spliced
  in before the last token. The same section at the very start of the token sequence is cut
  off as described (third conjunct).
\<close>

theorem cutOff_version_heading_not_first:
  "findIndex (\<lambda>token i. isVersionToken token (Num i))
     [Heading 1 (str ''Changelog''), Heading 2 (str ''master''), Heading 3 BREAKING_CHANGES,
      Heading 3 NEW_FEATURES, Heading 3 BUG_FIXES] = - 1
   \<and> cutOffTokens
     [Heading 1 (str ''Changelog''), Heading 2 (str ''master''), Heading 3 BREAKING_CHANGES,
      Heading 3 NEW_FEATURES, Heading 3 BUG_FIXES] (str ''1.0.0'')
   = [Heading 1 (str ''Changelog''), Heading 2 (str ''master''), Heading 3 BREAKING_CHANGES,
      Heading 3 NEW_FEATURES,
      Heading 2 (str ''master''), Heading 3 BREAKING_CHANGES, Heading 3 NEW_FEATURES,
      Heading 3 BUG_FIXES,
      Heading 3 BUG_FIXES]
   \<and> cutOffTokens
     [Heading 2 (str ''master''), Heading 3 BREAKING_CHANGES,
      Heading 3 NEW_FEATURES, Heading 3 BUG_FIXES, Heading 2 (str ''0.9.0'')] (str ''1.0.0'')
   = [Heading 2 (str ''master''), Heading 3 BREAKING_CHANGES, Heading 3 NEW_FEATURES,
      Heading 3 BUG_FIXES,
      Heading 2 (str ''1.0.0''), Paragraph VERSION_EMPTY_PARAGRAPH_TEXT,
      Heading 2 (str ''0.9.0'')]"
proof (intro conjI)
qed (simp_all add: cutOffTokens_def findIndex_def splice_def newSectionTokens_def cleanUp.simps
      setText_def VERSION_HEADING_DEPTH_def CHANGE_TYPE_HEADING_DEPTH_def
      UNPUBLISHED_VERSION_NAME_def BREAKING_CHANGES_def NEW_FEATURES_def BUG_FIXES_def str_def)

subsection \<open>The scan of insertEntriesAsync\<close>

lemma getTokensAsync_result:
  assumes "getTokensAsync lexer cl = (ts, cl')"
  shows "tokens cl' = Some ts" "disk cl' = disk cl" "filePath cl' = filePath cl"
    "tokens cl \<noteq> None \<Longrightarrow> cl' = cl"
  using assms by (auto simp: getTokensAsync_def Let_def split: option.splits)

lemma isVersionToken_Str:
  "version \<noteq> [] \<Longrightarrow> isVersionToken t (Str version) = (t = Heading VERSION_HEADING_DEPTH version)"
  by (cases t) auto

lemma isChangeTypeToken_Str:
  "type \<noteq> [] \<Longrightarrow> isChangeTypeToken t (Str type) = (t = Heading CHANGE_TYPE_HEADING_DEPTH type)"
  by (cases t) auto

lemma findIndexFrom_none: "(\<forall>x\<in>set xs. \<not> q x) \<Longrightarrow> findIndexFrom (\<lambda>t i. q t) i xs = - 1"
  by (induction xs arbitrary: i) auto

lemma insertLoop_version_first:
  "i \<le> m \<Longrightarrow> m < length ts \<Longrightarrow> isVersionToken (ts ! m) Undefined \<Longrightarrow>
   (\<forall>j. i \<le> j \<and> j < m \<longrightarrow> \<not> isChangeTypeToken (ts ! j) (Str type)) \<Longrightarrow>
   insertLoop ts type grp entries i = Inr ts"
proof (induction ts type grp entries i rule: insertLoop.induct)
  case (1 ts type grp entries i)
  show ?case
  proof (cases "isVersionToken (ts ! i) Undefined")
    case True
    with 1(2,3) show ?thesis by (simp add: insertLoop.simps)
  next
    case False
    with 1(2,4) have im: "i < m" by (cases "i = m") auto
    with 1(5) have nc: "\<not> isChangeTypeToken (ts ! i) (Str type)" by simp
    from im 1(3) have il: "i < length ts" by simp
    have "insertLoop ts type grp entries (i + 1) = Inr ts"
      using 1(1)[OF il False nc] im 1(3,4,5) by simp
    with il False nc show ?thesis by (subst insertLoop.simps) simp
  qed
qed

lemma insertLoop_not_found:
  "(\<forall>j. i \<le> j \<and> j < length ts \<longrightarrow>
      \<not> isVersionToken (ts ! j) Undefined \<and> \<not> isChangeTypeToken (ts ! j) (Str type)) \<Longrightarrow>
   insertLoop ts type grp entries i = Inl (ChangeTypeSectionNotFound type)"
proof (induction ts type grp entries i rule: insertLoop.induct)
  case (1 ts type grp entries i)
  show ?case
  proof (cases "i < length ts")
    case False
    then show ?thesis by (simp add: insertLoop.simps)
  next
    case True
    with 1(2) have nv: "\<not> isVersionToken (ts ! i) Undefined"
      and nc: "\<not> isChangeTypeToken (ts ! i) (Str type)" by simp_all
    have "insertLoop ts type grp entries (i + 1) = Inl (ChangeTypeSectionNotFound type)"
      using 1(1)[OF True nv nc] 1(2) by simp
    with True nv nc show ?thesis by (subst insertLoop.simps) simp
  qed
qed

lemma insertEntries_scan_general:
  assumes "entries \<noteq> []"
    and "getTokensAsync lexer cl = (ts, cl')"
    and "findIndex (\<lambda>token i. isVersionToken token (Str version)) ts = int k"
  shows "((\<exists>m. k < m \<and> m < length ts \<and> isVersionToken (ts ! m) Undefined
              \<and> (\<forall>i. k < i \<and> i < m \<longrightarrow> \<not> isChangeTypeToken (ts ! i) (Str type)))
          \<longrightarrow> insertEntriesAsync lexer version type grp entries cl = (Inr (), cl'))
       \<and> ((\<forall>i. k < i \<and> i < length ts \<longrightarrow>
              \<not> isVersionToken (ts ! i) Undefined \<and> \<not> isChangeTypeToken (ts ! i) (Str type))
          \<longrightarrow> insertEntriesAsync lexer version type grp entries cl
                = (Inl (ChangeTypeSectionNotFound type), cl'))
       \<and> (type \<noteq> [] \<longrightarrow>
            (\<forall>t. isChangeTypeToken t (Str type) = (t = Heading CHANGE_TYPE_HEADING_DEPTH type)))"
proof -
  have unf: "insertEntriesAsync lexer version type grp entries cl =
      (case insertLoop ts type grp entries (k + 1) of
         Inl e \<Rightarrow> (Inl e, cl')
       | Inr ts' \<Rightarrow> (Inr (), cl'\<lparr>tokens := Some ts'\<rparr>))"
    using assms by (simp add: insertEntriesAsync_def)
  have same: "cl'\<lparr>tokens := Some ts\<rparr> = cl'"
    using getTokensAsync_result(1)[OF assms(2)] by simp
  have a: "insertEntriesAsync lexer version type grp entries cl = (Inr (), cl')"
    if "k < m" "m < length ts" "isVersionToken (ts ! m) Undefined"
      "\<forall>i. k < i \<and> i < m \<longrightarrow> \<not> isChangeTypeToken (ts ! i) (Str type)" for m
  proof -
    have "insertLoop ts type grp entries (k + 1) = Inr ts"
      using that by (intro insertLoop_version_first[of _ m]) auto
    with unf same show ?thesis by simp
  qed
  have b: "insertEntriesAsync lexer version type grp entries cl
             = (Inl (ChangeTypeSectionNotFound type), cl')"
    if "\<forall>i. k < i \<and> i < length ts \<longrightarrow>
          \<not> isVersionToken (ts ! i) Undefined \<and> \<not> isChangeTypeToken (ts ! i) (Str type)"
  proof -
    have "insertLoop ts type grp entries (k + 1) = Inl (ChangeTypeSectionNotFound type)"
      using that by (intro insertLoop_not_found) auto
    with unf show ?thesis by simp
  qed
  from a b isChangeTypeToken_Str[of type] show ?thesis by blast
qed

lemma isVersionToken_Undefined:
  "isVersionToken t Undefined = (\<exists>x. t = Heading VERSION_HEADING_DEPTH x)"
  by (cases t) auto


text \<open>
  C4 (as amended, for a type that is not the empty string). When \<open>insertEntriesAsync\<close>
  has found the heading of the version at index \<open>k\<close>, it scans forward for a heading of
  the change type depth whose text equals the requested type. If a heading of the version
  depth comes first (at \<open>m\<close>, no heading of the change type depth with the text \<open>type\<close>
  strictly between), it returns normally and the tokens are the loaded ones: nothing is
  inserted and no error is raised. If no token after \<open>k\<close> is a heading of the version depth
  or a heading of the change type depth with the text \<open>type\<close>, the scan reaches the end and
  \<open>insertEntriesAsync\<close> fails with \<open>ChangeTypeSectionNotFound\<close>.
\<close>

theorem insertEntries_scan_outcomes:
  assumes "entries \<noteq> []" and "type \<noteq> []"
    and "getTokensAsync lexer cl = (ts, cl')"
    and "findIndex (\<lambda>token i. isVersionToken token (Str version)) ts = int k"
  shows "((\<exists>m. k < m \<and> m < length ts \<and> (\<exists>x. ts ! m = Heading VERSION_HEADING_DEPTH x)
              \<and> (\<forall>i. k < i \<and> i < m \<longrightarrow> ts ! i \<noteq> Heading CHANGE_TYPE_HEADING_DEPTH type))
          \<longrightarrow> insertEntriesAsync lexer version type grp entries cl = (Inr (), cl'))
       \<and> ((\<forall>i. k < i \<and> i < length ts \<longrightarrow>
              (\<forall>x. ts ! i \<noteq> Heading VERSION_HEADING_DEPTH x)
              \<and> ts ! i \<noteq> Heading CHANGE_TYPE_HEADING_DEPTH type)
          \<longrightarrow> insertEntriesAsync lexer version type grp entries cl
                = (Inl (ChangeTypeSectionNotFound type), cl'))"
  using insertEntries_scan_general[OF assms(1,3,4), of type grp] assms(2)
  by (simp add: isVersionToken_Undefined isChangeTypeToken_Str)

theorem insertEntries_scan_outcomes_witness:
  "insertEntriesAsync (\<lambda>md. None) (str ''1.0.0'') BUG_FIXES None
     [\<lparr>message = str ''Fixed Z'', pullRequests = None, authors = None\<rparr>]
     \<lparr>filePath = str ''CHANGELOG.md'',
      tokens = Some [Heading 2 (str ''1.0.0''), Heading 3 NEW_FEATURES,
                     Heading 2 (str ''0.9.0''), Heading 3 BUG_FIXES],
      disk = Map.empty\<rparr>
   = (Inr (),
      \<lparr>filePath = str ''CHANGELOG.md'',
       tokens = Some [Heading 2 (str ''1.0.0''), Heading 3 NEW_FEATURES,
                      Heading 2 (str ''0.9.0''), Heading 3 BUG_FIXES],
       disk = Map.empty\<rparr>)
   \<and> insertEntriesAsync (\<lambda>md. None) (str ''1.0.0'') BUG_FIXES None
     [\<lparr>message = str ''Fixed Z'', pullRequests = None, authors = None\<rparr>]
     \<lparr>filePath = str ''CHANGELOG.md'',
      tokens = Some [Heading 2 (str ''1.0.0''), Heading 3 NEW_FEATURES],
      disk = Map.empty\<rparr>
   = (Inl (ChangeTypeSectionNotFound BUG_FIXES),
      \<lparr>filePath = str ''CHANGELOG.md'',
       tokens = Some [Heading 2 (str ''1.0.0''), Heading 3 NEW_FEATURES],
       disk = Map.empty\<rparr>)"
proof -
  let ?e = "\<lparr>message = str ''Fixed Z'', pullRequests = None, authors = None\<rparr>"
  let ?tsA = "[Heading 2 (str ''1.0.0''), Heading 3 NEW_FEATURES,
               Heading 2 (str ''0.9.0''), Heading 3 BUG_FIXES]"
  let ?tsB = "[Heading 2 (str ''1.0.0''), Heading 3 NEW_FEATURES]"
  let ?clA = "\<lparr>filePath = str ''CHANGELOG.md'', tokens = Some ?tsA, disk = Map.empty\<rparr>"
  let ?clB = "\<lparr>filePath = str ''CHANGELOG.md'', tokens = Some ?tsB, disk = Map.empty\<rparr>"
  have ne: "[?e] \<noteq> []" by simp
  have ty: "BUG_FIXES \<noteq> []" by (simp add: cl_defs)
  have gA: "getTokensAsync (\<lambda>md. None) ?clA = (?tsA, ?clA)"
    by (simp add: getTokensAsync_def)
  have gB: "getTokensAsync (\<lambda>md. None) ?clB = (?tsB, ?clB)"
    by (simp add: getTokensAsync_def)
  have fA: "findIndex (\<lambda>token i. isVersionToken token (Str (str ''1.0.0''))) ?tsA = int 0"
    by (simp add: findIndex_def cl_defs str_def)
  have fB: "findIndex (\<lambda>token i. isVersionToken token (Str (str ''1.0.0''))) ?tsB = int 0"
    by (simp add: findIndex_def cl_defs str_def)
  have one: "i = 1" if "0 < i \<and> i < 2" for i :: nat
    using that by arith
  have hA: "\<exists>m. 0 < m \<and> m < length ?tsA \<and> (\<exists>x. ?tsA ! m = Heading VERSION_HEADING_DEPTH x)
              \<and> (\<forall>i. 0 < i \<and> i < m \<longrightarrow> ?tsA ! i \<noteq> Heading CHANGE_TYPE_HEADING_DEPTH BUG_FIXES)"
  proof (intro exI[of _ 2] conjI allI impI)
    fix i :: nat
    assume "0 < i \<and> i < 2"
    then have "i = 1" by (rule one)
    then show "?tsA ! i \<noteq> Heading CHANGE_TYPE_HEADING_DEPTH BUG_FIXES"
      by (simp add: cl_defs str_def)
  qed (simp_all add: cl_defs)
  have hB: "\<forall>i. 0 < i \<and> i < length ?tsB \<longrightarrow>
              (\<forall>x. ?tsB ! i \<noteq> Heading VERSION_HEADING_DEPTH x)
              \<and> ?tsB ! i \<noteq> Heading CHANGE_TYPE_HEADING_DEPTH BUG_FIXES"
  proof (intro allI impI)
    fix i :: nat
    assume "0 < i \<and> i < length ?tsB"
    then have "i = 1" by (intro one) simp
    then show "(\<forall>x. ?tsB ! i \<noteq> Heading VERSION_HEADING_DEPTH x)
              \<and> ?tsB ! i \<noteq> Heading CHANGE_TYPE_HEADING_DEPTH BUG_FIXES"
      by (simp add: cl_defs str_def)
  qed
  from insertEntries_scan_outcomes[OF ne ty gA fA, of None] hA
  have A: "insertEntriesAsync (\<lambda>md. None) (str ''1.0.0'') BUG_FIXES None [?e] ?clA = (Inr (), ?clA)"
    by blast
  from insertEntries_scan_outcomes[OF ne ty gB fB, of None] hB
  have B: "insertEntriesAsync (\<lambda>md. None) (str ''1.0.0'') BUG_FIXES None [?e] ?clB
             = (Inl (ChangeTypeSectionNotFound BUG_FIXES), ?clB)"
    by blast
  from A B show ?thesis by (rule conjI)
qed

text \<open>
  C4, the claim as stated fails for the empty string as type: \<^verbatim>\<open>!type || token.text === type\<close>
  in \<open>isChangeTypeToken\<close> then accepts every heading of the change type depth. No heading
  has an empty text below, yet with a later version heading the entry is inserted under
  "New features" (a list is spliced in before \<open>## 0.9.0\<close>) where the claim has a no-op, and
  with no later version heading the entry is inserted where the claim has
  \<open>ChangeTypeSectionNotFound\<close>.
\<close>

theorem insertEntries_empty_type_counterexample:
  "Heading CHANGE_TYPE_HEADING_DEPTH []
     \<notin> set [Heading 2 (str ''1.0.0''), Heading 3 NEW_FEATURES, Heading 2 (str ''0.9.0'')]
   \<and> insertEntriesAsync (\<lambda>md. None) (str ''1.0.0'') [] None
     [\<lparr>message = str ''Fixed Z'', pullRequests = None, authors = None\<rparr>]
     \<lparr>filePath = str ''CHANGELOG.md'',
      tokens = Some [Heading 2 (str ''1.0.0''), Heading 3 NEW_FEATURES, Heading 2 (str ''0.9.0'')],
      disk = Map.empty\<rparr>
   = (Inr (),
      \<lparr>filePath = str ''CHANGELOG.md'',
       tokens = Some [Heading 2 (str ''1.0.0''), Heading 3 NEW_FEATURES,
                      ListT (ListToken 0 [ListItemToken 0 (str ''Fixed Z'') [TextT (str ''Fixed Z'')]] False),
                      Heading 2 (str ''0.9.0'')],
       disk = Map.empty\<rparr>)
   \<and> insertEntriesAsync (\<lambda>md. None) (str ''1.0.0'') [] None
     [\<lparr>message = str ''Fixed Z'', pullRequests = None, authors = None\<rparr>]
     \<lparr>filePath = str ''CHANGELOG.md'',
      tokens = Some [Heading 2 (str ''1.0.0''), Heading 3 NEW_FEATURES],
      disk = Map.empty\<rparr>
   = (Inr (),
      \<lparr>filePath = str ''CHANGELOG.md'',
       tokens = Some [Heading 2 (str ''1.0.0''), Heading 3 NEW_FEATURES,
                      ListT (ListToken 0 [ListItemToken 0 (str ''Fixed Z'') [TextT (str ''Fixed Z'')]] False)],
       disk = Map.empty\<rparr>)"
proof (intro conjI)
qed (simp_all add: insertEntriesAsync_def getTokensAsync_def findIndex_def insertLoop.simps
      insertIntoSection_def findListFrom.simps tokenDepth_def insertIntoList_def
      createListItemToken_def createTextToken_def createListToken_def getChangeEntryLabel_def
      splice_def cl_defs str_def)

text \<open>
  C5 (as amended). With entries to insert and a non-empty version string, on a token
  sequence with no heading of the version depth whose text is the version,
  \<open>insertEntriesAsync\<close> fails with \<open>VersionNotFound\<close>. The instance is as \<open>getTokensAsync\<close>
  left it: the tokens are the loaded ones, the file system and the path are untouched, and
  an instance whose tokens were loaded before is unchanged altogether.
\<close>

theorem insertEntries_version_not_found:
  assumes "version \<noteq> []" and "entries \<noteq> []"
    and "getTokensAsync lexer cl = (ts, cl')"
    and "Heading VERSION_HEADING_DEPTH version \<notin> set ts"
  shows "insertEntriesAsync lexer version type grp entries cl = (Inl (VersionNotFound version), cl')
       \<and> tokens cl' = Some ts \<and> disk cl' = disk cl \<and> filePath cl' = filePath cl
       \<and> (tokens cl \<noteq> None \<longrightarrow> cl' = cl)"
proof -
  have "\<forall>t\<in>set ts. \<not> isVersionToken t (Str version)"
    using assms(1,4) by (auto simp: isVersionToken_Str)
  then have "findIndex (\<lambda>token i. isVersionToken token (Str version)) ts = - 1"
    unfolding findIndex_def by (rule findIndexFrom_none)
  then have "insertEntriesAsync lexer version type grp entries cl = (Inl (VersionNotFound version), cl')"
    using assms(2,3) by (simp add: insertEntriesAsync_def)
  with getTokensAsync_result[OF assms(3)] show ?thesis by simp
qed

theorem insertEntries_version_not_found_witness:
  "insertEntriesAsync (\<lambda>md. None) (str ''9.9.9'') BUG_FIXES None
     [\<lparr>message = str ''Fixed Z'', pullRequests = None, authors = None\<rparr>]
     \<lparr>filePath = str ''CHANGELOG.md'',
      tokens = Some [Heading 2 (str ''master''), Heading 3 BUG_FIXES],
      disk = [str ''CHANGELOG.md'' \<mapsto> str ''## master'']\<rparr>
   = (Inl (VersionNotFound (str ''9.9.9'')),
      \<lparr>filePath = str ''CHANGELOG.md'',
       tokens = Some [Heading 2 (str ''master''), Heading 3 BUG_FIXES],
       disk = [str ''CHANGELOG.md'' \<mapsto> str ''## master'']\<rparr>)"
proof -
  let ?ts = "[Heading 2 (str ''master''), Heading 3 BUG_FIXES]"
  let ?cl = "\<lparr>filePath = str ''CHANGELOG.md'', tokens = Some ?ts,
              disk = [str ''CHANGELOG.md'' \<mapsto> str ''## master'']\<rparr>"
  have v: "str ''9.9.9'' \<noteq> []" by (simp add: str_def)
  have ne: "[\<lparr>message = str ''Fixed Z'', pullRequests = None, authors = None\<rparr>] \<noteq> []" by simp
  have g: "getTokensAsync (\<lambda>md. None) ?cl = (?ts, ?cl)"
    by (simp add: getTokensAsync_def)
  have h: "Heading VERSION_HEADING_DEPTH (str ''9.9.9'') \<notin> set ?ts"
    by (simp add: cl_defs str_def)
  from insertEntries_version_not_found[OF v ne g h, of BUG_FIXES None]
  show ?thesis by simp
qed

text \<open>
  The claim C5 as written fails for the empty version string: \<open>isVersionToken\<close> then
  accepts every heading of the version depth, so the entries go into the first version
  section although no heading has the empty text.
\<close>

theorem insertEntries_empty_version_counterexample:
  "Heading VERSION_HEADING_DEPTH [] \<notin> set [Heading 2 (str ''master''), Heading 3 BUG_FIXES]
   \<and> insertEntriesAsync (\<lambda>md. None) [] BUG_FIXES None
     [\<lparr>message = str ''Fixed Z'', pullRequests = None, authors = None\<rparr>]
     \<lparr>filePath = str ''CHANGELOG.md'',
      tokens = Some [Heading 2 (str ''master''), Heading 3 BUG_FIXES],
      disk = Map.empty\<rparr>
   = (Inr (),
      \<lparr>filePath = str ''CHANGELOG.md'',
       tokens = Some [Heading 2 (str ''master''), Heading 3 BUG_FIXES,
                      ListT (ListToken 0 [ListItemToken 0 (str ''Fixed Z'') [TextT (str ''Fixed Z'')]] False)],
       disk = Map.empty\<rparr>)"
  by (simp add: insertEntriesAsync_def getTokensAsync_def findIndex_def insertLoop.simps
      insertIntoSection_def findListFrom.simps tokenDepth_def insertIntoList_def
      createListItemToken_def createTextToken_def createListToken_def getChangeEntryLabel_def
      splice_def cl_defs str_def)

subsection \<open>The scan of getChangesAsync\<close>











lemma bodyInv_refl: "bodyInv v s [] s"
  by (simp add: bodyInv_def)









end
